theory Spec2Isabelle
  imports Main
begin

section \<open>Values read from the findings file\<close>

text \<open>
  \<^verbatim>\<open>json.load\<close> turns the input file into Python values: \<^verbatim>\<open>None\<close>, booleans, integers,
  floats, strings, lists and dictionaries with string keys. A dictionary keeps its items in
  insertion order and its keys are distinct; it is modelled as an association list in which
  the first binding of a key is the one in effect (every lookup goes through \<open>map_of\<close>).
  A float is a mantissa and a binary exponent, or one of the three special values that
  \<^verbatim>\<open>json.load\<close> accepts. Strings are lists of characters; case conversion is modelled on
  the ASCII letters only: on text with other letters \<^verbatim>\<open>upper()\<close> and \<^verbatim>\<open>lower()\<close> of Python
  convert these too and may change the length, which \<open>str_upper\<close> and \<open>str_lower\<close> do not
  follow.
\<close>

datatype pyfloat = Finite int int | Infinite bool | NaN

datatype json =
    JNull
  | JBool bool
  | JInt int
  | JFloat pyfloat
  | JStr string
  | JList "json list"
  | JObj "(string \<times> json) list"

text \<open>The exceptions that the modelled code can raise.\<close>

datatype py_error =
    AttributeError
  | TypeError
  | KeyError
  | IndexError
  | FileNotFoundError
  | PermissionError
  | IsADirectoryError
  | NotADirectoryError
  | UnicodeDecodeError
  | JSONDecodeError
  | TemplateSyntaxError

text \<open>Sequencing of two steps, the second of which runs only when the first did not raise.\<close>

definition ebind :: "py_error + 'a \<Rightarrow> ('a \<Rightarrow> py_error + 'b) \<Rightarrow> py_error + 'b" where
  "ebind m f = (case m of Inl e \<Rightarrow> Inl e | Inr x \<Rightarrow> f x)"

subsection \<open>The Python operations used on these values\<close>

text \<open>Truth value of an object, as tested by \<^verbatim>\<open>if x\<close>, \<^verbatim>\<open>not x\<close> and \<^verbatim>\<open>a and b\<close>.\<close>

fun py_truthy :: "json \<Rightarrow> bool" where
  "py_truthy JNull = False"
| "py_truthy (JBool b) = b"
| "py_truthy (JInt n) = (n \<noteq> 0)"
| "py_truthy (JFloat (Finite m e)) = (m \<noteq> 0)"
| "py_truthy (JFloat (Infinite s)) = True"
| "py_truthy (JFloat NaN) = True"
| "py_truthy (JStr s) = (s \<noteq> [])"
| "py_truthy (JList xs) = (xs \<noteq> [])"
| "py_truthy (JObj kvs) = (kvs \<noteq> [])"

fun starts_with :: "string \<Rightarrow> string \<Rightarrow> bool" where
  "starts_with s [] = True"
| "starts_with [] (p # ps) = False"
| "starts_with (c # cs) (p # ps) = (c = p \<and> starts_with cs ps)"

fun str_contains :: "string \<Rightarrow> string \<Rightarrow> bool" where
  "str_contains [] k = (k = [])"
| "str_contains (c # cs) k = (starts_with (c # cs) k \<or> str_contains cs k)"

text \<open>
  \<^verbatim>\<open>k in x\<close> for a string \<open>k\<close>: key membership in a dictionary, element membership in a list,
  substring test in a string, \<^verbatim>\<open>TypeError\<close> for every other object.
\<close>

fun py_contains :: "string \<Rightarrow> json \<Rightarrow> py_error + bool" where
  "py_contains k (JObj kvs) = Inr (map_of kvs k \<noteq> None)"
| "py_contains k (JList xs) = Inr (JStr k \<in> set xs)"
| "py_contains k (JStr s) = Inr (str_contains s k)"
| "py_contains k JNull = Inl TypeError"
| "py_contains k (JBool b) = Inl TypeError"
| "py_contains k (JInt n) = Inl TypeError"
| "py_contains k (JFloat f) = Inl TypeError"

text \<open>
  \<^verbatim>\<open>x[k]\<close> for a string \<open>k\<close>: the value of the key in a dictionary (\<^verbatim>\<open>KeyError\<close> when it
  is missing), \<^verbatim>\<open>TypeError\<close> for every other object (lists and strings take integer
  indices, the rest is not subscriptable).
\<close>

fun py_getitem :: "json \<Rightarrow> string \<Rightarrow> py_error + json" where
  "py_getitem (JObj kvs) k = (case map_of kvs k of None \<Rightarrow> Inl KeyError | Some v \<Rightarrow> Inr v)"
| "py_getitem JNull k = Inl TypeError"
| "py_getitem (JBool b) k = Inl TypeError"
| "py_getitem (JInt n) k = Inl TypeError"
| "py_getitem (JFloat f) k = Inl TypeError"
| "py_getitem (JStr s) k = Inl TypeError"
| "py_getitem (JList xs) k = Inl TypeError"

text \<open>
  \<^verbatim>\<open>x[0]\<close>: the first element of a list or the first character of a string
  (\<^verbatim>\<open>IndexError\<close> when empty); a dictionary read from JSON has string keys only, so the
  key \<open>0\<close> is missing (\<^verbatim>\<open>KeyError\<close>); the other objects are not subscriptable.
\<close>

fun py_getitem0 :: "json \<Rightarrow> py_error + json" where
  "py_getitem0 (JList []) = Inl IndexError"
| "py_getitem0 (JList (x # xs)) = Inr x"
| "py_getitem0 (JStr []) = Inl IndexError"
| "py_getitem0 (JStr (c # cs)) = Inr (JStr [c])"
| "py_getitem0 (JObj kvs) = Inl KeyError"
| "py_getitem0 JNull = Inl TypeError"
| "py_getitem0 (JBool b) = Inl TypeError"
| "py_getitem0 (JInt n) = Inl TypeError"
| "py_getitem0 (JFloat f) = Inl TypeError"

text \<open>
  \<^verbatim>\<open>x.get(k, d)\<close>: only dictionaries have the method; the default \<open>d\<close> is returned when the
  key is missing, and the stored value otherwise (also when it is \<^verbatim>\<open>None\<close>).
\<close>

fun py_get :: "json \<Rightarrow> string \<Rightarrow> json \<Rightarrow> py_error + json" where
  "py_get (JObj kvs) k d = Inr (case map_of kvs k of None \<Rightarrow> d | Some v \<Rightarrow> v)"
| "py_get JNull k d = Inl AttributeError"
| "py_get (JBool b) k d = Inl AttributeError"
| "py_get (JInt n) k d = Inl AttributeError"
| "py_get (JFloat f) k d = Inl AttributeError"
| "py_get (JStr s) k d = Inl AttributeError"
| "py_get (JList xs) k d = Inl AttributeError"

text \<open>
  The items a \<^verbatim>\<open>for\<close> loop runs over: the elements of a list, the keys of a dictionary,
  the characters of a string; the other objects are not iterable.
\<close>

fun py_iter :: "json \<Rightarrow> py_error + json list" where
  "py_iter (JList xs) = Inr xs"
| "py_iter (JObj kvs) = Inr (map (\<lambda>kv. JStr (fst kv)) kvs)"
| "py_iter (JStr s) = Inr (map (\<lambda>c. JStr [c]) s)"
| "py_iter JNull = Inl TypeError"
| "py_iter (JBool b) = Inl TypeError"
| "py_iter (JInt n) = Inl TypeError"
| "py_iter (JFloat f) = Inl TypeError"

definition upper_char :: "char \<Rightarrow> char" where
  "upper_char c =
     (case map_of (zip ''abcdefghijklmnopqrstuvwxyz'' ''ABCDEFGHIJKLMNOPQRSTUVWXYZ'') c of
        None \<Rightarrow> c | Some u \<Rightarrow> u)"

definition lower_char :: "char \<Rightarrow> char" where
  "lower_char c =
     (case map_of (zip ''ABCDEFGHIJKLMNOPQRSTUVWXYZ'' ''abcdefghijklmnopqrstuvwxyz'') c of
        None \<Rightarrow> c | Some l \<Rightarrow> l)"

definition str_upper :: "string \<Rightarrow> string" where
  "str_upper s = map upper_char s"

definition str_lower :: "string \<Rightarrow> string" where
  "str_lower s = map lower_char s"

text \<open>\<^verbatim>\<open>x.upper()\<close>: a method of strings only.\<close>

fun py_upper :: "json \<Rightarrow> py_error + string" where
  "py_upper (JStr s) = Inr (str_upper s)"
| "py_upper JNull = Inl AttributeError"
| "py_upper (JBool b) = Inl AttributeError"
| "py_upper (JInt n) = Inl AttributeError"
| "py_upper (JFloat f) = Inl AttributeError"
| "py_upper (JList xs) = Inl AttributeError"
| "py_upper (JObj kvs) = Inl AttributeError"

section \<open>The Finding record\<close>

text \<open>
  \<^verbatim>\<open>extract_findings\<close> builds one dictionary with ten fixed entries per result. The values
  taken over with \<^verbatim>\<open>get\<close> are whatever the input holds; \<open>level\<close> is the result of
  \<^verbatim>\<open>upper()\<close> and therefore a string; \<open>code\<close> is \<^verbatim>\<open>None\<close> (\<open>JNull\<close>) when no snippet is found.
\<close>

record position =
  line :: json
  column :: json

record finding =
  rule_id :: json
  message :: json
  level :: string
  path :: json
  start :: position
  end' :: position
  code :: json
  tags :: json

section \<open>Code snippet extraction\<close>

text \<open>
  \<^verbatim>\<open>_extract_code_snippet\<close>: three nested loops with a \<^verbatim>\<open>return\<close> in the innermost body.
  Each loop yields \<open>Some v\<close> when the function returned \<open>v\<close> from inside it and \<open>None\<close> when
  it ran to its end.
\<close>

fun snippet_in_locations :: "json list \<Rightarrow> py_error + json option" where
  "snippet_in_locations [] = Inr None"
| "snippet_in_locations (location # rest) =
     (case py_contains ''location'' location of
        Inl e \<Rightarrow> Inl e
      | Inr False \<Rightarrow> snippet_in_locations rest
      | Inr True \<Rightarrow>
          (case ebind (py_getitem location ''location'') (py_contains ''snippet'') of
             Inl e \<Rightarrow> Inl e
           | Inr False \<Rightarrow> snippet_in_locations rest
           | Inr True \<Rightarrow>
               ebind (py_getitem location ''location'') (\<lambda>l.
               ebind (py_getitem l ''snippet'') (\<lambda>s.
               ebind (py_get s ''text'' (JStr '''')) (\<lambda>t. Inr (Some t))))))"

fun snippet_in_threads :: "json list \<Rightarrow> py_error + json option" where
  "snippet_in_threads [] = Inr None"
| "snippet_in_threads (thread # rest) =
     (case py_contains ''locations'' thread of
        Inl e \<Rightarrow> Inl e
      | Inr False \<Rightarrow> snippet_in_threads rest
      | Inr True \<Rightarrow>
          (case py_getitem thread ''locations'' of
             Inl e \<Rightarrow> Inl e
           | Inr ls \<Rightarrow>
               if py_truthy ls then
                 (case ebind (py_iter ls) snippet_in_locations of
                    Inl e \<Rightarrow> Inl e
                  | Inr (Some t) \<Rightarrow> Inr (Some t)
                  | Inr None \<Rightarrow> snippet_in_threads rest)
               else snippet_in_threads rest))"

fun snippet_in_flows :: "json list \<Rightarrow> py_error + json option" where
  "snippet_in_flows [] = Inr None"
| "snippet_in_flows (flow # rest) =
     (case py_contains ''threadFlows'' flow of
        Inl e \<Rightarrow> Inl e
      | Inr False \<Rightarrow> snippet_in_flows rest
      | Inr True \<Rightarrow>
          (case py_getitem flow ''threadFlows'' of
             Inl e \<Rightarrow> Inl e
           | Inr ts \<Rightarrow>
               if py_truthy ts then
                 (case ebind (py_iter ts) snippet_in_threads of
                    Inl e \<Rightarrow> Inl e
                  | Inr (Some t) \<Rightarrow> Inr (Some t)
                  | Inr None \<Rightarrow> snippet_in_flows rest)
               else snippet_in_flows rest))"

definition extract_code_snippet :: "json \<Rightarrow> py_error + json" where
  "extract_code_snippet result =
     (case py_contains ''codeFlows'' result of
        Inl e \<Rightarrow> Inl e
      | Inr False \<Rightarrow> Inr JNull
      | Inr True \<Rightarrow>
          (case py_getitem result ''codeFlows'' of
             Inl e \<Rightarrow> Inl e
           | Inr fs \<Rightarrow>
               if py_truthy fs then
                 (case ebind (py_iter fs) snippet_in_flows of
                    Inl e \<Rightarrow> Inl e
                  | Inr (Some t) \<Rightarrow> Inr t
                  | Inr None \<Rightarrow> Inr JNull)
               else Inr JNull))"

section \<open>Finding extraction\<close>

text \<open>
  The source repeats the chain
  \<^verbatim>\<open>result.get('locations', [{}])[0].get('physicalLocation', {})\<close> in five entries of the
  dictionary; \<open>physical_location\<close> is that chain, evaluated anew at each use.
\<close>

definition physical_location :: "json \<Rightarrow> py_error + json" where
  "physical_location result =
     ebind (py_get result ''locations'' (JList [JObj []])) (\<lambda>ls.
     ebind (py_getitem0 ls) (\<lambda>l.
     py_get l ''physicalLocation'' (JObj [])))"

definition region_field :: "json \<Rightarrow> string \<Rightarrow> py_error + json" where
  "region_field result k =
     ebind (physical_location result) (\<lambda>p.
     ebind (py_get p ''region'' (JObj [])) (\<lambda>r.
     py_get r k (JInt 0)))"

text \<open>The dictionary display of the loop body; its entries are evaluated in order.\<close>

definition finding_of_result :: "json \<Rightarrow> py_error + finding" where
  "finding_of_result result =
     ebind (py_get result ''ruleId'' (JStr ''Unknown Rule'')) (\<lambda>v_rule_id.
     ebind (ebind (py_get result ''message'' (JObj []))
              (\<lambda>m. py_get m ''text'' (JStr ''No message''))) (\<lambda>v_message.
     ebind (ebind (py_get result ''level'' (JStr ''note'')) py_upper) (\<lambda>v_level.
     ebind (ebind (physical_location result) (\<lambda>p.
            ebind (py_get p ''artifactLocation'' (JObj [])) (\<lambda>a.
            py_get a ''uri'' (JStr ''Unknown file'')))) (\<lambda>v_path.
     ebind (region_field result ''startLine'') (\<lambda>v_start_line.
     ebind (region_field result ''startColumn'') (\<lambda>v_start_column.
     ebind (region_field result ''endLine'') (\<lambda>v_end_line.
     ebind (region_field result ''endColumn'') (\<lambda>v_end_column.
     ebind (extract_code_snippet result) (\<lambda>v_code.
     ebind (py_get result ''tags'' (JList [])) (\<lambda>v_tags.
     Inr \<lparr>rule_id = v_rule_id, message = v_message, level = v_level, path = v_path,
          start = \<lparr>line = v_start_line, column = v_start_column\<rparr>,
          end' = \<lparr>line = v_end_line, column = v_end_column\<rparr>,
          code = v_code, tags = v_tags\<rparr>))))))))))"

text \<open>
  The two loops of \<^verbatim>\<open>extract_findings\<close>; the list \<open>findings\<close> is the accumulator that
  \<^verbatim>\<open>append\<close> extends.
\<close>

fun results_loop :: "json list \<Rightarrow> finding list \<Rightarrow> py_error + finding list" where
  "results_loop [] findings = Inr findings"
| "results_loop (result # rest) findings =
     (case finding_of_result result of
        Inl e \<Rightarrow> Inl e
      | Inr f \<Rightarrow> results_loop rest (findings @ [f]))"

fun runs_loop :: "json list \<Rightarrow> finding list \<Rightarrow> py_error + finding list" where
  "runs_loop [] findings = Inr findings"
| "runs_loop (run # rest) findings =
     (case py_contains ''results'' run of
        Inl e \<Rightarrow> Inl e
      | Inr False \<Rightarrow> runs_loop rest findings
      | Inr True \<Rightarrow>
          (case ebind (ebind (py_getitem run ''results'') py_iter)
                  (\<lambda>results. results_loop results findings) of
             Inl e \<Rightarrow> Inl e
           | Inr findings' \<Rightarrow> runs_loop rest findings'))"

definition extract_findings :: "json \<Rightarrow> py_error + finding list" where
  "extract_findings semgrep_data =
     (if \<not> py_truthy semgrep_data then Inr []
      else
        (case py_contains ''runs'' semgrep_data of
           Inl e \<Rightarrow> Inl e
         | Inr False \<Rightarrow> Inr []
         | Inr True \<Rightarrow>
             ebind (ebind (py_getitem semgrep_data ''runs'') py_iter)
               (\<lambda>runs. runs_loop runs [])))"

section \<open>Report data assembly\<close>

record report_data =
  repository_url :: string
  commit_sha :: string
  scan_date :: string
  semgrep_version :: string
  total_findings :: int
  high_severity_count :: int
  medium_severity_count :: int
  low_severity_count :: int
  info_severity_count :: int
  findings :: "finding list"

text \<open>The dictionary \<^verbatim>\<open>severity_counts\<close> as it is initialised.\<close>

definition severity_counts :: "string \<rightharpoonup> int" where
  "severity_counts = [''high'' \<mapsto> 0, ''medium'' \<mapsto> 0, ''low'' \<mapsto> 0, ''info'' \<mapsto> 0]"

text \<open>
  The counting loop: \<^verbatim>\<open>level = finding['level'].lower()\<close>, and the entry of \<open>level\<close> is
  incremented when \<open>level\<close> is a key of the dictionary.
\<close>

fun count_loop :: "finding list \<Rightarrow> (string \<rightharpoonup> int) \<Rightarrow> (string \<rightharpoonup> int)" where
  "count_loop [] counts = counts"
| "count_loop (f # rest) counts =
     (let lvl = str_lower (level f) in
      case counts lvl of
        None \<Rightarrow> count_loop rest counts
      | Some c \<Rightarrow> count_loop rest (counts(lvl \<mapsto> c + 1)))"

text \<open>\<^verbatim>\<open>d[k]\<close> on a dictionary of counters.\<close>

definition dict_item :: "(string \<rightharpoonup> int) \<Rightarrow> string \<Rightarrow> py_error + int" where
  "dict_item d k = (case d k of None \<Rightarrow> Inl KeyError | Some v \<Rightarrow> Inr v)"

text \<open>
  \<^verbatim>\<open>generate_report_data\<close>. The first argument is the text that
  \<^verbatim>\<open>datetime.now().strftime('%Y-%m-%d %H:%M:%S UTC')\<close> yields at the call.
\<close>

definition generate_report_data ::
  "string \<Rightarrow> finding list \<Rightarrow> string \<Rightarrow> string \<Rightarrow> py_error + report_data" where
  "generate_report_data now fs url sha =
     (let counts = count_loop fs severity_counts in
      ebind (dict_item counts ''high'') (\<lambda>h.
      ebind (dict_item counts ''medium'') (\<lambda>m.
      ebind (dict_item counts ''low'') (\<lambda>l.
      ebind (dict_item counts ''info'') (\<lambda>i.
      Inr \<lparr>repository_url = url, commit_sha = sha, scan_date = now,
           semgrep_version = ''Latest'', total_findings = int (length fs),
           high_severity_count = h, medium_severity_count = m,
           low_severity_count = l, info_severity_count = i,
           findings = fs\<rparr>)))))"

section \<open>Files, templates and rendering\<close>

text \<open>
  The file system and the libraries are arguments of the functions that use them:
  \<^item> \<open>read_file p\<close> is the outcome of \<^verbatim>\<open>open(p, 'r', encoding='utf-8')\<close> followed by reading
    the whole file: its text, or the exception raised;
  \<^item> \<open>json_loads\<close> is the JSON parser applied to that text (\<^verbatim>\<open>JSONDecodeError\<close> on text
    that is not valid JSON);
  \<^item> \<open>compile\<close> is the constructor \<^verbatim>\<open>Template\<close> of the template engine;
  \<^item> \<open>render\<close> is the method \<^verbatim>\<open>render\<close> of a compiled template: the rendered text, or
    \<open>Inl msg\<close> when it raises an \<^verbatim>\<open>Exception\<close> \<open>e\<close> with \<^verbatim>\<open>str(e)\<close> equal to \<open>msg\<close>.
\<close>

definition parse_semgrep_output ::
  "(string \<Rightarrow> py_error + string) \<Rightarrow> (string \<Rightarrow> py_error + json) \<Rightarrow> string \<Rightarrow> py_error + json" where
  "parse_semgrep_output read_file json_loads json_file =
     (case ebind (read_file json_file) json_loads of
        Inr data \<Rightarrow> Inr data
      | Inl e \<Rightarrow>
          if e = FileNotFoundError \<or> e = JSONDecodeError then Inr (JObj []) else Inl e)"

definition fallback_html :: string where
  \<open>fallback_html = concat [
       ''\<newline>'',
       ''        <!DOCTYPE html>\<newline>'',
       ''        <html>\<newline>'',
       ''        <head>\<newline>'',
       ''            <title>Semgrep Security Report</title>\<newline>'',
       ''            <style>\<newline>'',
       ''                body { font-family: Arial, sans-serif; margin: 20px; }\<newline>'',
       ''                .finding { border: 1px solid #ddd; margin: 10px 0; padding: 15px; }\<newline>'',
       ''                .high { border-left: 5px solid #dc3545; }\<newline>'',
       ''                .medium { border-left: 5px solid #fd7e14; }\<newline>'',
       ''                .low { border-left: 5px solid #28a745; }\<newline>'',
       ''                .info { border-left: 5px solid #17a2b8; }\<newline>'',
       ''            </style>\<newline>'',
       ''        </head>\<newline>'',
       ''        <body>\<newline>'',
       ''            <h1>Semgrep Security Scan Report</h1>\<newline>'',
       ''            <p><strong>Generated:</strong> {{ scan_date }}</p>\<newline>'',
       ''            <p><strong>Total Findings:</strong> {{ total_findings }}</p>\<newline>'',
       ''            \<newline>'',
       ''            {% for finding in findings %}\<newline>'',
       ''            <div class="finding {{ finding.level.lower() }}">\<newline>'',
       ''                <h3>{{ finding.rule_id }}</h3>\<newline>'',
       ''                <p><strong>Severity:</strong> {{ finding.level }}</p>\<newline>'',
       ''                <p><strong>Message:</strong> {{ finding.message }}</p>\<newline>'',
       ''                <p><strong>File:</strong> {{ finding.path }}:{{ finding.start.line }}</p>\<newline>'',
       ''                {% if finding.code %}\<newline>'',
       ''                <pre><code>{{ finding.code }}</code></pre>\<newline>'',
       ''                {% endif %}\<newline>'',
       ''            </div>\<newline>'',
       ''            {% endfor %}\<newline>'',
       ''        </body>\<newline>'',
       ''        </html>\<newline>'',
       ''        '']\<close>

definition get_fallback_template :: "(string \<Rightarrow> py_error + 't) \<Rightarrow> py_error + 't" where
  "get_fallback_template compile = compile fallback_html"

definition load_template ::
  "(string \<Rightarrow> py_error + string) \<Rightarrow> (string \<Rightarrow> py_error + 't) \<Rightarrow> string \<Rightarrow> py_error + 't" where
  "load_template read_file compile tpath =
     (case ebind (read_file tpath) compile of
        Inr t \<Rightarrow> Inr t
      | Inl e \<Rightarrow>
          if e = FileNotFoundError then get_fallback_template compile else Inl e)"

record 't semgrep_report_generator =
  template_path :: string
  template :: 't

text \<open>The constructor \<^verbatim>\<open>__init__\<close>.\<close>

definition init ::
  "(string \<Rightarrow> py_error + string) \<Rightarrow> (string \<Rightarrow> py_error + 't) \<Rightarrow> string
     \<Rightarrow> py_error + 't semgrep_report_generator" where
  "init read_file compile tpath =
     ebind (load_template read_file compile tpath) (\<lambda>t.
     Inr \<lparr>template_path = tpath, template = t\<rparr>)"

definition generate_html ::
  "('t \<Rightarrow> report_data \<Rightarrow> string + string) \<Rightarrow> 't semgrep_report_generator \<Rightarrow> report_data
     \<Rightarrow> py_error + string" where
  \<open>generate_html render self rd =
     (case render (template self) rd of
        Inr html \<Rightarrow> Inr html
      | Inl e \<Rightarrow>
          Inr (''<html><body><h1>Error generating report</h1><p>'' @ e @ ''</p></body></html>''))\<close>

section \<open>Reference notions for the statements\<close>

text \<open>The Finding that the documented defaults describe.\<close>

definition default_finding :: finding where
  "default_finding =
     \<lparr>rule_id = JStr ''Unknown Rule'', message = JStr ''No message'', level = ''NOTE'',
      path = JStr ''Unknown file'',
      start = \<lparr>line = JInt 0, column = JInt 0\<rparr>,
      end' = \<lparr>line = JInt 0, column = JInt 0\<rparr>,
      code = JNull, tags = JList []\<rparr>"

text \<open>The number of findings whose level, lower-cased, is exactly \<open>k\<close>.\<close>

definition count_level :: "string \<Rightarrow> finding list \<Rightarrow> int" where
  "count_level k fs = int (length (filter (\<lambda>f. str_lower (level f) = k) fs))"

text \<open>
  Reading a structure without failing: the value of a key of an object (none for a missing
  key and for a value that is no object), and the elements of a list (none for anything
  else).
\<close>

fun obj_field :: "json \<Rightarrow> string \<Rightarrow> json option" where
  "obj_field (JObj kvs) k = map_of kvs k"
| "obj_field j k = None"

fun list_items :: "json option \<Rightarrow> json list" where
  "list_items (Some (JList xs)) = xs"
| "list_items v = []"

fun is_obj :: "json \<Rightarrow> bool" where
  "is_obj (JObj kvs) = True"
| "is_obj j = False"

text \<open>
  The snippet objects of a result in traversal order: code flows, then thread flows, then
  locations, each list in its own order.
\<close>

definition location_snippets :: "json \<Rightarrow> json list" where
  "location_snippets loc =
     (case obj_field loc ''location'' of
        None \<Rightarrow> []
      | Some l \<Rightarrow> (case obj_field l ''snippet'' of None \<Rightarrow> [] | Some s \<Rightarrow> [s]))"

definition thread_snippets :: "json \<Rightarrow> json list" where
  "thread_snippets th = concat (map location_snippets (list_items (obj_field th ''locations'')))"

definition flow_snippets :: "json \<Rightarrow> json list" where
  "flow_snippets fl = concat (map thread_snippets (list_items (obj_field fl ''threadFlows'')))"

definition result_snippets :: "json \<Rightarrow> json list" where
  "result_snippets r = concat (map flow_snippets (list_items (obj_field r ''codeFlows'')))"

text \<open>
  The specification's reading of \<^verbatim>\<open>_extract_code_snippet\<close>: the first snippet text that is
  not absent, in traversal order, and none when there is no such text.
\<close>

definition snippet_texts :: "json \<Rightarrow> json list" where
  "snippet_texts r =
     concat (map (\<lambda>s. case obj_field s ''text'' of
                         None \<Rightarrow> []
                       | Some t \<Rightarrow> if t = JNull then [] else [t])
               (result_snippets r))"

definition first_snippet_text :: "json \<Rightarrow> json" where
  "first_snippet_text r = (case snippet_texts r of [] \<Rightarrow> JNull | t # ts \<Rightarrow> t)"

text \<open>
  What the first snippet object alone determines: its text, the empty string when it has
  no \<open>text\<close> key, and none when there is no snippet object at all.
\<close>

definition snippet_text_or_empty :: "json \<Rightarrow> json" where
  "snippet_text_or_empty s = (case obj_field s ''text'' of None \<Rightarrow> JStr '''' | Some t \<Rightarrow> t)"

definition first_text :: "json list \<Rightarrow> json option" where
  "first_text ss = (case ss of [] \<Rightarrow> None | s # rest \<Rightarrow> Some (snippet_text_or_empty s))"

definition text_of_first_snippet :: "json \<Rightarrow> json" where
  "text_of_first_snippet r = (case first_text (result_snippets r) of None \<Rightarrow> JNull | Some t \<Rightarrow> t)"

text \<open>
  Well-formed code flows: where present, \<open>codeFlows\<close>, \<open>threadFlows\<close> and \<open>locations\<close> are
  lists of objects (or a value that counts as false and is skipped), and \<open>location\<close> and
  \<open>snippet\<close> are objects.
\<close>

definition wf_list_field :: "(json \<Rightarrow> bool) \<Rightarrow> json \<Rightarrow> string \<Rightarrow> bool" where
  "wf_list_field P j k =
     (case obj_field j k of
        None \<Rightarrow> True
      | Some (JList xs) \<Rightarrow> list_all P xs
      | Some v \<Rightarrow> \<not> py_truthy v)"

definition wf_location :: "json \<Rightarrow> bool" where
  "wf_location loc =
     (is_obj loc \<and>
      (case obj_field loc ''location'' of
         None \<Rightarrow> True
       | Some l \<Rightarrow>
           is_obj l \<and> (case obj_field l ''snippet'' of None \<Rightarrow> True | Some s \<Rightarrow> is_obj s)))"

definition wf_thread :: "json \<Rightarrow> bool" where
  "wf_thread th = (is_obj th \<and> wf_list_field wf_location th ''locations'')"

definition wf_flow :: "json \<Rightarrow> bool" where
  "wf_flow fl = (is_obj fl \<and> wf_list_field wf_thread fl ''threadFlows'')"

definition wf_code_flows :: "json \<Rightarrow> bool" where
  "wf_code_flows r = (is_obj r \<and> wf_list_field wf_flow r ''codeFlows'')"

text \<open>
  The result objects of an input in run-major, result-minor order, and the shape of a run
  whose \<open>results\<close>, where present, is a list.
\<close>

definition run_results :: "json \<Rightarrow> json list" where
  "run_results run = list_items (obj_field run ''results'')"

definition all_results :: "json \<Rightarrow> json list" where
  "all_results d = concat (map run_results (list_items (obj_field d ''runs'')))"

definition wf_run :: "json \<Rightarrow> bool" where
  "wf_run run =
     (is_obj run \<and>
      (case obj_field run ''results'' of
         None \<Rightarrow> True
       | Some (JList rs) \<Rightarrow> True
       | Some v \<Rightarrow> False))"

text \<open>
  The condition on the content of the input file, read off the outcome of opening and
  reading it: the content is not valid JSON when it is no UTF-8 text at all, so that
  reading it raises \<^verbatim>\<open>UnicodeDecodeError\<close>, or when it is text that the parser rejects with
  \<^verbatim>\<open>JSONDecodeError\<close>.
\<close>

definition content_not_valid_json ::
  "(string \<Rightarrow> py_error + json) \<Rightarrow> py_error + string \<Rightarrow> bool" where
  "content_not_valid_json json_loads outcome =
     (case outcome of
        Inl e \<Rightarrow> e = UnicodeDecodeError
      | Inr content \<Rightarrow> json_loads content = Inl JSONDecodeError)"

section \<open>The counting loop\<close>

lemma count_loop_apply:
  "count_loop fs counts k =
     (case counts k of
        None \<Rightarrow> None
      | Some c \<Rightarrow> Some (c + int (length (filter (\<lambda>f. str_lower (level f) = k) fs))))"
  by (induction fs arbitrary: counts) (simp_all add: Let_def split: option.splits)

lemma generate_report_data_eq:
  "generate_report_data now fs url sha =
     Inr \<lparr>repository_url = url, commit_sha = sha, scan_date = now,
          semgrep_version = ''Latest'', total_findings = int (length fs),
          high_severity_count = count_level ''high'' fs,
          medium_severity_count = count_level ''medium'' fs,
          low_severity_count = count_level ''low'' fs,
          info_severity_count = count_level ''info'' fs,
          findings = fs\<rparr>"
  by (simp add: generate_report_data_def Let_def dict_item_def ebind_def count_loop_apply
      severity_counts_def count_level_def)

lemma bucket_sum:
  "count_level ''high'' fs + count_level ''medium'' fs + count_level ''low'' fs
     + count_level ''info'' fs
     + int (length (filter (\<lambda>f. str_lower (level f) \<notin> {''high'', ''medium'', ''low'', ''info''}) fs))
   = int (length fs)"
  by (induction fs) (auto simp: count_level_def)

section \<open>The snippet search as a search for the first snippet object\<close>

lemma first_text_append:
  "first_text (a @ b) = (case first_text a of None \<Rightarrow> first_text b | Some t \<Rightarrow> Some t)"
  by (cases a) (simp_all add: first_text_def)

lemma location_snippets_obj:
  "location_snippets (JObj kvs) =
     (case map_of kvs ''location'' of
        None \<Rightarrow> []
      | Some l \<Rightarrow> (case obj_field l ''snippet'' of None \<Rightarrow> [] | Some s \<Rightarrow> [s]))"
  by (simp add: location_snippets_def)

lemma snippet_in_locations_first:
  "list_all wf_location ls \<Longrightarrow>
   snippet_in_locations ls = Inr (first_text (concat (map location_snippets ls)))"
proof (induction ls)
  case Nil
  show ?case by (simp add: first_text_def)
next
  case (Cons loc rest)
  then obtain kvs where loc: "loc = JObj kvs" and wf: "wf_location (JObj kvs)"
    and IH: "snippet_in_locations rest = Inr (first_text (concat (map location_snippets rest)))"
    by (cases loc) (auto simp: wf_location_def)
  show ?case
  proof (cases "map_of kvs ''location''")
    case None
    then show ?thesis using IH loc
      by (simp add: location_snippets_obj)
  next
    case (Some l)
    with wf obtain kvs2 where l: "l = JObj kvs2"
      by (cases l) (auto simp: wf_location_def)
    show ?thesis
    proof (cases "map_of kvs2 ''snippet''")
      case None
      then show ?thesis using IH loc Some l
        by (simp add: location_snippets_obj ebind_def)
    next
      case (Some s)
      with wf \<open>map_of kvs ''location'' = Some l\<close> l obtain kvs3 where s: "s = JObj kvs3"
        by (cases s) (auto simp: wf_location_def)
      show ?thesis using loc \<open>map_of kvs ''location'' = Some l\<close> l Some s
        by (simp add: location_snippets_obj ebind_def first_text_def snippet_text_or_empty_def)
    qed
  qed
qed

lemma thread_snippets_obj:
  "thread_snippets (JObj kvs) = concat (map location_snippets (list_items (map_of kvs ''locations'')))"
  by (simp add: thread_snippets_def)

lemma snippet_in_threads_first:
  "list_all wf_thread ts \<Longrightarrow>
   snippet_in_threads ts = Inr (first_text (concat (map thread_snippets ts)))"
proof (induction ts)
  case Nil
  show ?case by (simp add: first_text_def)
next
  case (Cons th rest)
  then obtain kvs where th: "th = JObj kvs" and wf: "wf_list_field wf_location (JObj kvs) ''locations''"
    and IH: "snippet_in_threads rest = Inr (first_text (concat (map thread_snippets rest)))"
    by (cases th) (auto simp: wf_thread_def)
  show ?case
  proof (cases "map_of kvs ''locations''")
    case None
    then show ?thesis using IH th
      by (simp add: thread_snippets_obj)
  next
    case (Some v)
    show ?thesis
    proof (cases "\<exists>ls. v = JList ls")
      case True
      then obtain ls where v: "v = JList ls" by blast
      with wf Some have "list_all wf_location ls"
        by (simp add: wf_list_field_def)
      then have inner: "snippet_in_locations ls = Inr (first_text (concat (map location_snippets ls)))"
        by (rule snippet_in_locations_first)
      show ?thesis using th Some v IH inner
        by (cases ls) (simp_all add: thread_snippets_obj ebind_def first_text_append
            split: option.splits)
    next
      case False
      with wf Some have "\<not> py_truthy v" and "list_items (Some v) = []"
        by (cases v; simp add: wf_list_field_def)+
      then show ?thesis using th Some IH
        by (simp add: thread_snippets_obj)
    qed
  qed
qed

lemma flow_snippets_obj:
  "flow_snippets (JObj kvs) = concat (map thread_snippets (list_items (map_of kvs ''threadFlows'')))"
  by (simp add: flow_snippets_def)

lemma snippet_in_flows_first:
  "list_all wf_flow fls \<Longrightarrow>
   snippet_in_flows fls = Inr (first_text (concat (map flow_snippets fls)))"
proof (induction fls)
  case Nil
  show ?case by (simp add: first_text_def)
next
  case (Cons fl rest)
  then obtain kvs where fl: "fl = JObj kvs" and wf: "wf_list_field wf_thread (JObj kvs) ''threadFlows''"
    and IH: "snippet_in_flows rest = Inr (first_text (concat (map flow_snippets rest)))"
    by (cases fl) (auto simp: wf_flow_def)
  show ?case
  proof (cases "map_of kvs ''threadFlows''")
    case None
    then show ?thesis using IH fl
      by (simp add: flow_snippets_obj)
  next
    case (Some v)
    show ?thesis
    proof (cases "\<exists>ts. v = JList ts")
      case True
      then obtain ts where v: "v = JList ts" by blast
      with wf Some have "list_all wf_thread ts"
        by (simp add: wf_list_field_def)
      then have inner: "snippet_in_threads ts = Inr (first_text (concat (map thread_snippets ts)))"
        by (rule snippet_in_threads_first)
      show ?thesis using fl Some v IH inner
        by (cases ts) (simp_all add: flow_snippets_obj ebind_def first_text_append
            split: option.splits)
    next
      case False
      with wf Some have "\<not> py_truthy v" and "list_items (Some v) = []"
        by (cases v; simp add: wf_list_field_def)+
      then show ?thesis using fl Some IH
        by (simp add: flow_snippets_obj)
    qed
  qed
qed

lemma extract_code_snippet_first:
  assumes "wf_code_flows r"
  shows "extract_code_snippet r = Inr (text_of_first_snippet r)"
proof -
  from assms obtain kvs where r: "r = JObj kvs" and wf: "wf_list_field wf_flow (JObj kvs) ''codeFlows''"
    by (cases r) (auto simp: wf_code_flows_def)
  show ?thesis
  proof (cases "map_of kvs ''codeFlows''")
    case None
    then show ?thesis using r
      by (simp add: extract_code_snippet_def text_of_first_snippet_def result_snippets_def
          first_text_def)
  next
    case (Some v)
    show ?thesis
    proof (cases "\<exists>fls. v = JList fls")
      case True
      then obtain fls where v: "v = JList fls" by blast
      with wf Some have "list_all wf_flow fls"
        by (simp add: wf_list_field_def)
      then have inner: "snippet_in_flows fls = Inr (first_text (concat (map flow_snippets fls)))"
        by (rule snippet_in_flows_first)
      show ?thesis using r Some v inner
        by (cases fls) (simp_all add: extract_code_snippet_def text_of_first_snippet_def
            result_snippets_def ebind_def first_text_def split: option.splits)
    next
      case False
      with wf Some have "\<not> py_truthy v" and "list_items (Some v) = []"
        by (cases v; simp add: wf_list_field_def)+
      then show ?thesis using r Some
        by (simp add: extract_code_snippet_def text_of_first_snippet_def result_snippets_def
            first_text_def)
    qed
  qed
qed

section \<open>The extraction loops as a traversal in input order\<close>

lemma results_loop_map:
  "map finding_of_result rs = map Inr fs \<Longrightarrow> results_loop rs acc = Inr (acc @ fs)"
proof (induction rs arbitrary: acc fs)
  case Nil
  then show ?case by simp
next
  case (Cons r rest)
  then obtain f fs' where fs: "fs = f # fs'" and f: "finding_of_result r = Inr f"
    and rest: "map finding_of_result rest = map Inr fs'"
    by (cases fs) auto
  from Cons.IH [OF rest, of "acc @ [f]"] show ?case
    by (simp add: f fs)
qed

lemma run_results_obj:
  "run_results (JObj kvs) = list_items (map_of kvs ''results'')"
  by (simp add: run_results_def)

lemma runs_loop_map:
  "list_all wf_run runs \<Longrightarrow>
   map finding_of_result (concat (map run_results runs)) = map Inr fs \<Longrightarrow>
   runs_loop runs acc = Inr (acc @ fs)"
proof (induction runs arbitrary: acc fs)
  case Nil
  then show ?case by simp
next
  case (Cons run rest)
  from Cons.prems(1) have wfrun: "wf_run run" and wfrest: "list_all wf_run rest"
    by simp_all
  from wfrun obtain kvs where run: "run = JObj kvs"
    by (cases run) (simp_all add: wf_run_def)
  from wfrun run have wfr: "wf_run (JObj kvs)"
    by simp
  from Cons.prems(2)
  have "map finding_of_result (run_results run)
          @ map finding_of_result (concat (map run_results rest)) = map Inr fs"
    by simp
  then obtain fs1 fs2 where fs: "fs = fs1 @ fs2"
    and m1: "map finding_of_result (run_results run) = map Inr fs1"
    and m2: "map finding_of_result (concat (map run_results rest)) = map Inr fs2"
    unfolding append_eq_map_conv by blast
  show ?case
  proof (cases "map_of kvs ''results''")
    case None
    with m1 run have "fs1 = []" by (simp add: run_results_obj)
    with None run fs Cons.IH [OF wfrest m2, of acc] show ?thesis by simp
  next
    case (Some v)
    with wfr obtain rs where v: "v = JList rs"
      by (cases v) (auto simp: wf_run_def)
    with m1 run Some have "results_loop rs acc = Inr (acc @ fs1)"
      by (simp add: run_results_obj results_loop_map)
    with Some v run fs Cons.IH [OF wfrest m2, of "acc @ fs1"] show ?thesis
      by (simp add: ebind_def)
  qed
qed

lemma extract_findings_in_order:
  assumes "obj_field d ''runs'' = Some (JList runs)"
    and "list_all wf_run runs"
    and "map finding_of_result (all_results d) = map Inr fs"
  shows "extract_findings d = Inr fs \<and> length fs = length (all_results d)"
proof -
  from assms(1) obtain kvs where d: "d = JObj kvs" and kvs: "map_of kvs ''runs'' = Some (JList runs)"
    by (cases d) auto
  from kvs have ne: "kvs \<noteq> []" by auto
  from assms(3) assms(1) have "map finding_of_result (concat (map run_results runs)) = map Inr fs"
    by (simp add: all_results_def)
  from runs_loop_map [OF assms(2) this, of "[]"] d kvs ne
  have "extract_findings d = Inr fs"
    by (simp add: extract_findings_def ebind_def)
  moreover from assms(3) have "length fs = length (all_results d)"
    by (metis length_map)
  ultimately show ?thesis by simp
qed

lemma extract_findings_no_runs:
  "extract_findings (JObj []) = Inr [] \<and>
   (map_of kvs ''runs'' = None \<longrightarrow> extract_findings (JObj kvs) = Inr [])"
  by (simp add: extract_findings_def)

section \<open>Finding extraction: the claims\<close>

text \<open>
  Claim C1. The claim: building a Finding never fails, every nested lookup tolerating an
  absent level of its chain, a present but empty \<open>locations\<close> list included. The code
  does not do that: for a result whose \<open>locations\<close> is the empty list, the default
  \<^verbatim>\<open>[{}]\<close> of \<^verbatim>\<open>get\<close> is not taken, \<^verbatim>\<open>[0]\<close> raises \<^verbatim>\<open>IndexError\<close>, and the exception leaves
  \<^verbatim>\<open>extract_findings\<close>.
\<close>

theorem empty_locations_raises:
  "finding_of_result (JObj [(''ruleId'', JStr ''rule-1''), (''locations'', JList [])])
     = Inl IndexError
   \<and> extract_findings
       (JObj [(''runs'', JList [JObj [(''results'',
          JList [JObj [(''ruleId'', JStr ''rule-1''), (''locations'', JList [])]])]])])
     = Inl IndexError"
  by (simp add: extract_findings_def finding_of_result_def physical_location_def ebind_def
      str_upper_def upper_char_def)

text \<open>
  Claim C2. The claim: an input whose runs hold N result objects in total gives a list of
  exactly N findings, in run-major and result-minor order. The code does not do that: the
  input below holds two result objects in its one run, the second with an empty
  \<open>locations\<close> list, and \<^verbatim>\<open>extract_findings\<close> raises \<^verbatim>\<open>IndexError\<close> where the claim has a list
  of two findings. The cause is the one of claim C1.
\<close>

theorem extract_findings_second_result_raises:
  "all_results
     (JObj [(''runs'', JList [JObj [(''results'',
        JList [JObj [(''ruleId'', JStr ''rule-1'')],
               JObj [(''ruleId'', JStr ''rule-2''), (''locations'', JList [])]])]])])
     = [JObj [(''ruleId'', JStr ''rule-1'')],
        JObj [(''ruleId'', JStr ''rule-2''), (''locations'', JList [])]]
   \<and> extract_findings
     (JObj [(''runs'', JList [JObj [(''results'',
        JList [JObj [(''ruleId'', JStr ''rule-1'')],
               JObj [(''ruleId'', JStr ''rule-2''), (''locations'', JList [])]])]])])
     = Inl IndexError"
  by (simp add: all_results_def run_results_def extract_findings_def finding_of_result_def
      physical_location_def region_field_def extract_code_snippet_def ebind_def
      str_upper_def upper_char_def)

text \<open>
  Claim C3. A result object that has none of the optional fields, the empty mapping in
  particular, yields the Finding of the documented defaults: rule \<open>Unknown Rule\<close>, message
  \<open>No message\<close>, level \<open>NOTE\<close>, path \<open>Unknown file\<close>, lines and columns 0, no code, no tags.
\<close>

theorem defaults_for_missing_fields:
  assumes "map_of kvs ''ruleId'' = None" and "map_of kvs ''message'' = None"
    and "map_of kvs ''level'' = None" and "map_of kvs ''locations'' = None"
    and "map_of kvs ''codeFlows'' = None" and "map_of kvs ''tags'' = None"
  shows "finding_of_result (JObj kvs) = Inr default_finding
    \<and> extract_findings (JObj [(''runs'', JList [JObj [(''results'', JList [JObj kvs])]])])
        = Inr [default_finding]"
  using assms
  by (simp add: extract_findings_def finding_of_result_def physical_location_def
      region_field_def extract_code_snippet_def ebind_def str_upper_def upper_char_def
      default_finding_def)

theorem defaults_for_missing_fields_witness:
  "finding_of_result (JObj []) =
     Inr \<lparr>rule_id = JStr ''Unknown Rule'', message = JStr ''No message'', level = ''NOTE'',
          path = JStr ''Unknown file'',
          start = \<lparr>line = JInt 0, column = JInt 0\<rparr>,
          end' = \<lparr>line = JInt 0, column = JInt 0\<rparr>,
          code = JNull, tags = JList []\<rparr>
   \<and> extract_findings (JObj [(''runs'', JList [JObj [(''results'', JList [JObj []])]])])
     = Inr [\<lparr>rule_id = JStr ''Unknown Rule'', message = JStr ''No message'', level = ''NOTE'',
          path = JStr ''Unknown file'',
          start = \<lparr>line = JInt 0, column = JInt 0\<rparr>,
          end' = \<lparr>line = JInt 0, column = JInt 0\<rparr>,
          code = JNull, tags = JList []\<rparr>]"
  using defaults_for_missing_fields [of "[]"]
  by (simp add: default_finding_def)

section \<open>Report data: the claims\<close>

text \<open>
  Claim C4. For every list of findings, \<^verbatim>\<open>generate_report_data\<close> returns a Report Data
  whose \<open>total_findings\<close> is the length of the list and whose four severity counters sum to
  at most \<open>total_findings\<close>, and to strictly less when some finding has a lower-cased level
  outside high, medium, low and info.
\<close>

theorem severity_counters_bounded:
  "\<exists>rd. generate_report_data now fs url sha = Inr rd
     \<and> total_findings rd = int (length fs)
     \<and> high_severity_count rd + medium_severity_count rd + low_severity_count rd
         + info_severity_count rd \<le> total_findings rd
     \<and> ((\<exists>f \<in> set fs. str_lower (level f) \<notin> {''high'', ''medium'', ''low'', ''info''})
         \<longrightarrow> high_severity_count rd + medium_severity_count rd + low_severity_count rd
               + info_severity_count rd < total_findings rd)"
proof -
  let ?P = "\<lambda>f. str_lower (level f) \<notin> {''high'', ''medium'', ''low'', ''info''}"
  let ?buckets = "count_level ''high'' fs + count_level ''medium'' fs + count_level ''low'' fs
      + count_level ''info'' fs"
  have sum: "?buckets + int (length (filter ?P fs)) = int (length fs)"
    by (rule bucket_sum)
  then have le: "?buckets \<le> int (length fs)"
    by linarith
  have lt: "?buckets < int (length fs)" if "\<exists>f \<in> set fs. ?P f"
  proof -
    from that have "filter ?P fs \<noteq> []"
      unfolding filter_empty_conv by blast
    then have "0 < int (length (filter ?P fs))"
      by simp
    with sum show ?thesis
      by linarith
  qed
  show ?thesis
    unfolding generate_report_data_eq using le lt by simp
qed

theorem severity_counters_bounded_witness:
  "(\<exists>f \<in> set [default_finding, default_finding\<lparr>level := ''HIGH''\<rparr>].
      str_lower (level f) \<notin> {''high'', ''medium'', ''low'', ''info''})
   \<and> (\<exists>rd. generate_report_data ''2024-01-01 00:00:00 UTC''
              [default_finding, default_finding\<lparr>level := ''HIGH''\<rparr>] ''Unknown'' ''Unknown''
            = Inr rd
         \<and> total_findings rd = 2
         \<and> high_severity_count rd + medium_severity_count rd + low_severity_count rd
             + info_severity_count rd < total_findings rd)"
proof -
  have h: "\<exists>f \<in> set [default_finding, default_finding\<lparr>level := ''HIGH''\<rparr>].
      str_lower (level f) \<notin> {''high'', ''medium'', ''low'', ''info''}"
    by (simp add: default_finding_def str_lower_def lower_char_def)
  from severity_counters_bounded
    [of "''2024-01-01 00:00:00 UTC''" "[default_finding, default_finding\<lparr>level := ''HIGH''\<rparr>]"
        "''Unknown''" "''Unknown''"] h
  show ?thesis by auto
qed

text \<open>
  Claim C5. Each severity counter is the number of findings whose lower-cased level is
  exactly the name of its bucket; a finding whose lower-cased level is no key of the
  dictionary of counters leaves the dictionary as it is; and for findings with the levels
  \<open>HIGH\<close>, \<open>high\<close>, \<open>Medium\<close>, \<open>bogus\<close> the counters are 2, 1, 0, 0 and the total is 4.
\<close>

theorem severity_counters_exact:
  "(\<exists>rd. generate_report_data now fs url sha = Inr rd
      \<and> high_severity_count rd = count_level ''high'' fs
      \<and> medium_severity_count rd = count_level ''medium'' fs
      \<and> low_severity_count rd = count_level ''low'' fs
      \<and> info_severity_count rd = count_level ''info'' fs)
   \<and> (str_lower (level f) \<notin> {''high'', ''medium'', ''low'', ''info''}
        \<longrightarrow> count_loop [f] severity_counts = severity_counts)
   \<and> (map level fs = [''HIGH'', ''high'', ''Medium'', ''bogus'']
        \<longrightarrow> (\<exists>rd. generate_report_data now fs url sha = Inr rd
               \<and> high_severity_count rd = 2 \<and> medium_severity_count rd = 1
               \<and> low_severity_count rd = 0 \<and> info_severity_count rd = 0
               \<and> total_findings rd = 4))"
proof -
  have lvl: "count_level k fs = int (length (filter (\<lambda>l. str_lower l = k) (map level fs)))" for k
    by (simp add: count_level_def filter_map comp_def)
  have ex: "count_level ''high'' fs = 2 \<and> count_level ''medium'' fs = 1
      \<and> count_level ''low'' fs = 0 \<and> count_level ''info'' fs = 0 \<and> int (length fs) = 4"
    if m: "map level fs = [''HIGH'', ''high'', ''Medium'', ''bogus'']"
  proof -
    from m have "length (map level fs) = 4" by simp
    then have "int (length fs) = 4" by simp
    then show ?thesis
      unfolding lvl m by (simp add: str_lower_def lower_char_def)
  qed
  have unmatched: "count_loop [f] severity_counts = severity_counts"
    if "str_lower (level f) \<notin> {''high'', ''medium'', ''low'', ''info''}"
    using that by (simp add: severity_counts_def Let_def)
  show ?thesis
    unfolding generate_report_data_eq using ex unmatched by auto
qed

theorem severity_counters_exact_witness:
  "(\<exists>rd. generate_report_data ''2024-01-01 00:00:00 UTC''
            [default_finding\<lparr>level := ''HIGH''\<rparr>, default_finding\<lparr>level := ''high''\<rparr>,
             default_finding\<lparr>level := ''Medium''\<rparr>, default_finding\<lparr>level := ''bogus''\<rparr>]
            ''Unknown'' ''Unknown'' = Inr rd
      \<and> high_severity_count rd = 2 \<and> medium_severity_count rd = 1
      \<and> low_severity_count rd = 0 \<and> info_severity_count rd = 0
      \<and> total_findings rd = 4)
   \<and> count_loop [default_finding\<lparr>level := ''bogus''\<rparr>] severity_counts = severity_counts"
proof -
  let ?fs = "[default_finding\<lparr>level := ''HIGH''\<rparr>, default_finding\<lparr>level := ''high''\<rparr>,
             default_finding\<lparr>level := ''Medium''\<rparr>, default_finding\<lparr>level := ''bogus''\<rparr>]"
  have h1: "map level ?fs = [''HIGH'', ''high'', ''Medium'', ''bogus'']" by simp
  have h2: "str_lower (level (default_finding\<lparr>level := ''bogus''\<rparr>))
      \<notin> {''high'', ''medium'', ''low'', ''info''}"
    by (simp add: str_lower_def lower_char_def)
  from severity_counters_exact
    [of "''2024-01-01 00:00:00 UTC''" ?fs "''Unknown''" "''Unknown''"
        "default_finding\<lparr>level := ''bogus''\<rparr>"] h1 h2
  show ?thesis by blast
qed

text \<open>
  Claim C10. The \<open>findings\<close> of the Report Data are the findings given, unchanged and in
  their order, whatever the repository URL and the commit; these two are taken over as
  given.
\<close>

theorem findings_passed_through:
  "\<exists>rd. generate_report_data now fs url sha = Inr rd
     \<and> findings rd = fs \<and> repository_url rd = url \<and> commit_sha rd = sha"
  unfolding generate_report_data_eq by simp

section \<open>Code snippet extraction: the claim\<close>

text \<open>
  Claim C6, as stated, fails. The result below has two code flows; the snippet of the
  first has no \<open>text\<close>, the snippet of the second has the text \<open>x = 1\<close>. The first
  snippet text that is not absent is \<open>x = 1\<close>, yet \<^verbatim>\<open>_extract_code_snippet\<close> returns the
  empty string: it returns at the first snippet object, with \<^verbatim>\<open>get('text', '')\<close>.
\<close>

theorem first_snippet_text_counterexample:
  "first_snippet_text
     (JObj [(''codeFlows'', JList
        [JObj [(''threadFlows'', JList [JObj [(''locations'', JList
           [JObj [(''location'', JObj [(''snippet'', JObj [])])]])]])],
         JObj [(''threadFlows'', JList [JObj [(''locations'', JList
           [JObj [(''location'', JObj [(''snippet'', JObj [(''text'', JStr ''x = 1'')])])]])]])]])])
     = JStr ''x = 1''
   \<and> extract_code_snippet
     (JObj [(''codeFlows'', JList
        [JObj [(''threadFlows'', JList [JObj [(''locations'', JList
           [JObj [(''location'', JObj [(''snippet'', JObj [])])]])]])],
         JObj [(''threadFlows'', JList [JObj [(''locations'', JList
           [JObj [(''location'', JObj [(''snippet'', JObj [(''text'', JStr ''x = 1'')])])]])]])]])])
     = Inr (JStr '''')"
  by (simp add: first_snippet_text_def snippet_texts_def result_snippets_def flow_snippets_def
      thread_snippets_def location_snippets_def extract_code_snippet_def ebind_def)

text \<open>
  Claim C6, amended. For a result object with well-formed code flows,
  \<^verbatim>\<open>_extract_code_snippet\<close> goes through \<open>codeFlows\<close>, each flow's \<open>threadFlows\<close> and each
  thread's \<open>locations\<close> in the order of the lists and returns what the first snippet
  object found determines: its text, or the empty string when it has no \<open>text\<close>; it
  returns none when no location has a snippet.
\<close>

theorem extract_code_snippet_first_snippet:
  "(wf_code_flows r \<longrightarrow> extract_code_snippet r = Inr (text_of_first_snippet r))
   \<and> (wf_code_flows r \<and> result_snippets r = [] \<longrightarrow> extract_code_snippet r = Inr JNull)"
proof -
  have "extract_code_snippet r = Inr JNull" if "wf_code_flows r" and "result_snippets r = []"
    using extract_code_snippet_first [OF that(1)] that(2)
    by (simp add: text_of_first_snippet_def first_text_def)
  then show ?thesis
    using extract_code_snippet_first [of r] by blast
qed

theorem extract_code_snippet_first_snippet_witness:
  "extract_code_snippet
     (JObj [(''codeFlows'', JList
        [JObj [(''threadFlows'', JList [JObj [(''locations'', JList
           [JObj [(''location'', JObj [(''physicalLocation'', JObj [])])]])]])],
         JObj [(''threadFlows'', JList [JObj [(''locations'', JList
           [JObj [(''location'', JObj [(''snippet'', JObj [(''text'', JStr ''x = 1'')])])],
            JObj [(''location'', JObj [(''snippet'', JObj [(''text'', JStr ''y = 2'')])])]])]])]])])
     = Inr (JStr ''x = 1'')
   \<and> extract_code_snippet (JObj [(''codeFlows'', JList [JObj [(''threadFlows'', JList [])]])])
     = Inr JNull"
proof -
  let ?r = "JObj [(''codeFlows'', JList
        [JObj [(''threadFlows'', JList [JObj [(''locations'', JList
           [JObj [(''location'', JObj [(''physicalLocation'', JObj [])])]])]])],
         JObj [(''threadFlows'', JList [JObj [(''locations'', JList
           [JObj [(''location'', JObj [(''snippet'', JObj [(''text'', JStr ''x = 1'')])])],
            JObj [(''location'', JObj [(''snippet'', JObj [(''text'', JStr ''y = 2'')])])]])]])]])]"
  let ?e = "JObj [(''codeFlows'', JList [JObj [(''threadFlows'', JList [])]])]"
  have wf: "wf_code_flows ?r"
    by (simp add: wf_code_flows_def wf_flow_def wf_thread_def wf_location_def wf_list_field_def)
  have first: "text_of_first_snippet ?r = JStr ''x = 1''"
    by (simp add: text_of_first_snippet_def first_text_def snippet_text_or_empty_def
        result_snippets_def flow_snippets_def thread_snippets_def location_snippets_def)
  have wfe: "wf_code_flows ?e"
    by (simp add: wf_code_flows_def wf_flow_def wf_list_field_def)
  have none: "result_snippets ?e = []"
    by (simp add: result_snippets_def flow_snippets_def)
  from extract_code_snippet_first_snippet [of ?r] wf
  have "extract_code_snippet ?r = Inr (text_of_first_snippet ?r)"
    by blast
  then have a: "extract_code_snippet ?r = Inr (JStr ''x = 1'')"
    by (simp only: first)
  from extract_code_snippet_first_snippet [of ?e] wfe none
  have b: "extract_code_snippet ?e = Inr JNull"
    by blast
  from a b show ?thesis
    by blast
qed

section \<open>Files, templates and rendering: the claims\<close>

text \<open>
  Claim C7, as stated, fails. A file whose bytes are no UTF-8 text is not valid JSON;
  reading it raises \<^verbatim>\<open>UnicodeDecodeError\<close>, which the \<^verbatim>\<open>except\<close> clause of
  \<^verbatim>\<open>parse_semgrep_output\<close> does not name, so the function raises instead of returning the
  empty mapping.
\<close>

theorem parse_semgrep_output_unicode_counterexample:
  "content_not_valid_json (\<lambda>s. Inl JSONDecodeError)
     ((\<lambda>p. Inl UnicodeDecodeError) ''semgrep-results.json'')
   \<and> parse_semgrep_output (\<lambda>p. Inl UnicodeDecodeError) (\<lambda>s. Inl JSONDecodeError)
       ''semgrep-results.json''
     = Inl UnicodeDecodeError"
  by (simp add: content_not_valid_json_def parse_semgrep_output_def ebind_def)

text \<open>
  Claim C7, amended. \<^verbatim>\<open>parse_semgrep_output\<close> returns the empty mapping, and raises nothing,
  when opening the path raises \<^verbatim>\<open>FileNotFoundError\<close> and when the parser rejects the text of
  the file with \<^verbatim>\<open>JSONDecodeError\<close>; when the file is read and parsed, it returns the parsed
  value; every other exception of opening or reading the file is raised by the function.
\<close>

theorem parse_semgrep_output_caught_errors:
  "(read_file json_file = Inl FileNotFoundError
      \<longrightarrow> parse_semgrep_output read_file json_loads json_file = Inr (JObj []))
   \<and> (read_file json_file = Inr content \<and> json_loads content = Inl JSONDecodeError
      \<longrightarrow> parse_semgrep_output read_file json_loads json_file = Inr (JObj []))
   \<and> (read_file json_file = Inr content \<and> json_loads content = Inr data
      \<longrightarrow> parse_semgrep_output read_file json_loads json_file = Inr data)
   \<and> (read_file json_file = Inl e \<and> e \<noteq> FileNotFoundError \<and> e \<noteq> JSONDecodeError
      \<longrightarrow> parse_semgrep_output read_file json_loads json_file = Inl e)"
  by (simp add: parse_semgrep_output_def ebind_def)

theorem parse_semgrep_output_caught_errors_witness:
  "parse_semgrep_output (\<lambda>p. Inl FileNotFoundError) (\<lambda>s. Inl JSONDecodeError) ''missing.json''
     = Inr (JObj [])
   \<and> parse_semgrep_output (\<lambda>p. Inr ''{not json'') (\<lambda>s. Inl JSONDecodeError) ''bad.json''
     = Inr (JObj [])
   \<and> parse_semgrep_output (\<lambda>p. Inr ''[1]'')
       (\<lambda>s. if s = ''[1]'' then Inr (JList [JInt 1]) else Inl JSONDecodeError) ''list.json''
     = Inr (JList [JInt 1])
   \<and> parse_semgrep_output (\<lambda>p. Inl NotADirectoryError) (\<lambda>s. Inl JSONDecodeError)
       ''report.html/results.json''
     = Inl NotADirectoryError"
proof -
  have a: "parse_semgrep_output (\<lambda>p. Inl FileNotFoundError) (\<lambda>s. Inl JSONDecodeError)
      ''missing.json'' = Inr (JObj [])"
    using parse_semgrep_output_caught_errors
      [where read_file = "\<lambda>p. Inl FileNotFoundError" and json_file = "''missing.json''"
         and json_loads = "\<lambda>s. Inl JSONDecodeError"]
    by simp
  have b: "parse_semgrep_output (\<lambda>p. Inr ''{not json'') (\<lambda>s. Inl JSONDecodeError)
      ''bad.json'' = Inr (JObj [])"
    using parse_semgrep_output_caught_errors
      [where read_file = "\<lambda>p. Inr ''{not json''" and json_file = "''bad.json''"
         and content = "''{not json''" and json_loads = "\<lambda>s. Inl JSONDecodeError"]
    by simp
  have c: "parse_semgrep_output (\<lambda>p. Inr ''[1]'')
      (\<lambda>s. if s = ''[1]'' then Inr (JList [JInt 1]) else Inl JSONDecodeError) ''list.json''
      = Inr (JList [JInt 1])"
    using parse_semgrep_output_caught_errors
      [where read_file = "\<lambda>p. Inr ''[1]''" and json_file = "''list.json''"
         and content = "''[1]''"
         and json_loads = "\<lambda>s. if s = ''[1]'' then Inr (JList [JInt 1]) else Inl JSONDecodeError"
         and data = "JList [JInt 1]"]
    by simp
  have d: "parse_semgrep_output (\<lambda>p. Inl NotADirectoryError) (\<lambda>s. Inl JSONDecodeError)
      ''report.html/results.json'' = Inl NotADirectoryError"
    using parse_semgrep_output_caught_errors
      [where read_file = "\<lambda>p. Inl NotADirectoryError"
         and json_file = "''report.html/results.json''"
         and json_loads = "\<lambda>s. Inl JSONDecodeError" and e = NotADirectoryError]
    by simp
  from a b c d show ?thesis
    by blast
qed

text \<open>
  Claim C8. \<^verbatim>\<open>generate_html\<close> raises for no Report Data: it returns the rendered text when
  rendering succeeds, and the fallback document around the text of the error when
  rendering fails; in both cases a string.
\<close>

theorem generate_html_never_raises:
  \<open>(\<exists>html. generate_html render self rd = Inr html)
   \<and> (render (template self) rd = Inr out \<longrightarrow> generate_html render self rd = Inr out)
   \<and> (render (template self) rd = Inl msg \<longrightarrow>
        generate_html render self rd =
          Inr (''<html><body><h1>Error generating report</h1><p>'' @ msg @ ''</p></body></html>''))\<close>
  by (cases "render (template self) rd") (simp_all add: generate_html_def)

theorem generate_html_never_raises_witness:
  \<open>generate_html (\<lambda>t rd. Inr (t @ repository_url rd))
      \<lparr>template_path = ''t.html'', template = ''repo: ''\<rparr>
      \<lparr>repository_url = ''Unknown'', commit_sha = ''Unknown'', scan_date = ''2024-01-01 00:00:00 UTC'',
       semgrep_version = ''Latest'', total_findings = 0, high_severity_count = 0,
       medium_severity_count = 0, low_severity_count = 0, info_severity_count = 0,
       findings = []\<rparr>
     = Inr ''repo: Unknown''
   \<and> generate_html (\<lambda>t rd. Inl ''undefined'')
      \<lparr>template_path = ''t.html'', template = ''repo: ''\<rparr>
      \<lparr>repository_url = ''Unknown'', commit_sha = ''Unknown'', scan_date = ''2024-01-01 00:00:00 UTC'',
       semgrep_version = ''Latest'', total_findings = 0, high_severity_count = 0,
       medium_severity_count = 0, low_severity_count = 0, info_severity_count = 0,
       findings = []\<rparr>
     = Inr ''<html><body><h1>Error generating report</h1><p>undefined</p></body></html>''\<close>
proof -
  let ?self = "\<lparr>template_path = ''t.html'', template = ''repo: ''\<rparr>"
  let ?rd = "\<lparr>repository_url = ''Unknown'', commit_sha = ''Unknown'',
       scan_date = ''2024-01-01 00:00:00 UTC'',
       semgrep_version = ''Latest'', total_findings = 0, high_severity_count = 0,
       medium_severity_count = 0, low_severity_count = 0, info_severity_count = 0,
       findings = []\<rparr>"
  have ok: "(\<lambda>t rd. Inr (t @ repository_url rd)) (template ?self) ?rd
      = (Inr ''repo: Unknown'' :: string + string)"
    by simp
  have bad: "(\<lambda>t rd. Inl ''undefined'') (template ?self) ?rd
      = (Inl ''undefined'' :: string + string)"
    by simp
  from generate_html_never_raises
      [where render = "\<lambda>t rd. Inr (t @ repository_url rd)" and self = ?self and rd = ?rd
         and out = "''repo: Unknown''"] ok
  have a: "generate_html (\<lambda>t rd. Inr (t @ repository_url rd)) ?self ?rd
      = Inr ''repo: Unknown''"
    by blast
  from generate_html_never_raises
      [where render = "\<lambda>t rd. Inl ''undefined''" and self = ?self and rd = ?rd
         and msg = "''undefined''"] bad
  have b: "generate_html (\<lambda>t rd. Inl ''undefined'') ?self ?rd
      = Inr (''<html><body><h1>Error generating report</h1><p>'' @ ''undefined''
             @ ''</p></body></html>'')"
    by blast
  from a b show ?thesis
    by simp
qed

text \<open>
  Claim C9, as stated, fails: when the template file exists but may not be read, \<^verbatim>\<open>open\<close>
  raises \<^verbatim>\<open>PermissionError\<close>, which \<^verbatim>\<open>_load_template\<close> does not catch, and the construction
  raises instead of falling back to the built-in template.
\<close>

theorem load_template_permission_counterexample:
  "load_template (\<lambda>p. Inl PermissionError) (\<lambda>s. Inr s) ''/app/templates/report_template.html''
     = Inl PermissionError
   \<and> init (\<lambda>p. Inl PermissionError) (\<lambda>s. Inr s) ''/app/templates/report_template.html''
     = Inl PermissionError"
  by (simp add: init_def load_template_def ebind_def)

text \<open>
  Claim C9, amended. When the template file at the configured path does not exist, the
  generator falls back to the fixed built-in template and the construction succeeds with
  it; any other exception of opening or reading the file is raised by the construction.
\<close>

theorem load_template_fallback:
  "(read_file tpath = Inl FileNotFoundError \<and> compile fallback_html = Inr t
      \<longrightarrow> load_template read_file compile tpath = Inr t
        \<and> init read_file compile tpath = Inr \<lparr>template_path = tpath, template = t\<rparr>)
   \<and> (read_file tpath = Inl e \<and> e \<noteq> FileNotFoundError
      \<longrightarrow> load_template read_file compile tpath = Inl e
        \<and> init read_file compile tpath = Inl e)"
  by (simp add: init_def load_template_def get_fallback_template_def ebind_def)

theorem load_template_fallback_witness:
  "init (\<lambda>p. Inl FileNotFoundError) (\<lambda>s. Inr s) ''/app/templates/report_template.html''
     = Inr \<lparr>template_path = ''/app/templates/report_template.html'', template = fallback_html\<rparr>
   \<and> init (\<lambda>p. Inl IsADirectoryError) (\<lambda>s. Inr s) ''/app/templates''
     = Inl IsADirectoryError"
  using
    load_template_fallback
      [where read_file = "\<lambda>p. Inl FileNotFoundError"
         and tpath = "''/app/templates/report_template.html''"
         and compile = "\<lambda>s. Inr s" and t = fallback_html]
    load_template_fallback
      [where read_file = "\<lambda>p. Inl IsADirectoryError" and tpath = "''/app/templates''"
         and compile = "\<lambda>s. Inr s" and e = IsADirectoryError]
  by simp

end
